theory Spec2Isabelle
  imports Complex_Main "HOL-Library.AList"
begin

section \<open>Errors and effectful computations\<close>

text \<open>
  A thrown JavaScript value is an \<open>error\<close>.  \<open>RunSuiteError message cause paramStr\<close> is the
  class of that name in \<^verbatim>\<open>core/src/runner.ts\<close>; every other \<^verbatim>\<open>new Error(message)\<close>
  is \<open>Error message\<close>; \<open>TypeError\<close> is what the engine throws itself, as for iterating
  \<^verbatim>\<open>undefined\<close>.
\<close>

datatype error =
    Error string
  | TypeError string
  | RunSuiteError string error "(string \<times> string) list option"

text \<open>
  A hook, a workload or a method of the driver runs on a state \<open>'s\<close> and either returns a
  value or throws.  A throw does not undo the writes made before it, so the state is
  returned in both cases.
\<close>

type_synonym ('s, 'a) eff = "'s \<Rightarrow> (error + 'a) \<times> 's"

definition ret :: "'a \<Rightarrow> ('s, 'a) eff" where
  "ret a s = (Inr a, s)"


definition bind :: "('s, 'a) eff \<Rightarrow> ('a \<Rightarrow> ('s, 'b) eff) \<Rightarrow> ('s, 'b) eff" where
  "bind m f s = (case m s of (Inl e, s') \<Rightarrow> (Inl e, s') | (Inr a, s') \<Rightarrow> f a s')"

text \<open>\<^verbatim>\<open>try { m } finally { fin }\<close>: \<open>fin\<close> always runs; if it throws, its error replaces
  the outcome of \<open>m\<close>.\<close>

definition try_finally :: "('s, 'a) eff \<Rightarrow> ('s, unit) eff \<Rightarrow> ('s, 'a) eff" where
  "try_finally m fin s =
     (case m s of (r, s') \<Rightarrow>
        (case fin s' of (Inl e, s'') \<Rightarrow> (Inl e, s'') | (Inr u, s'') \<Rightarrow> (r, s'')))"

type_synonym 's hook = "('s, unit) eff"

text \<open>
  Modelled from the spec: \<^verbatim>\<open>runFns\<close> (called \<^verbatim>\<open>runHooks\<close> in the older files) lives in
  \<^verbatim>\<open>utils.js\<close>, which is not among the sources.  The spec has hooks run one after the
  other in registration order, each awaited before the next; a throw ends the loop.
\<close>

fun runFns :: "'s hook list \<Rightarrow> 's hook" where
  "runFns [] s = (Inr (), s)"
| "runFns (h # hs) s = (case h s of (Inl e, s') \<Rightarrow> (Inl e, s') | (Inr u, s') \<Rightarrow> runFns hs s')"

section \<open>The suite model: \<^verbatim>\<open>Scene\<close> and \<^verbatim>\<open>BenchCase\<close>\<close>

text \<open>
  The value an awaited workload produces is opaque to the harness; it is a string here.
  A call of a workload runs its synchronous part; it then either has its value
  (\<open>Plain\<close>) or has returned a pending promise, whose remaining computation runs when the
  promise is awaited (\<open>Promise\<close>).
\<close>

datatype 's awaitable = Plain string | Promise "('s, string) eff"

type_synonym 's workload = "('s, 's awaitable) eff"

definition await :: "'s awaitable \<Rightarrow> ('s, string) eff" where
  "await p = (case p of Plain v \<Rightarrow> ret v | Promise k \<Rightarrow> k)"

text \<open>
  A value of a suite parameter.  A string is told apart (\<^verbatim>\<open>typeof value\<close>); any other value
  is named by a string and equal to itself only.
\<close>

datatype raw = Str string | Other string

text \<open>
  \<^verbatim>\<open>BenchCase\<close> of \<^verbatim>\<open>suite.ts\<close>.  Its \<^verbatim>\<open>beforeHooks\<close> and \<^verbatim>\<open>afterHooks\<close> are the very arrays
  of the scene (the constructor copies the references), so they are read from the scene.
\<close>

record 's bench_case =
  name :: string
  fn :: "'s workload"
  isAsync :: bool
  case_id :: "nat option"

record 's scene =
  teardownHooks :: "'s hook list"
  beforeIterHooks :: "'s hook list"
  afterIterHooks :: "'s hook list"
  cases :: "'s bench_case list"
  params :: "(string \<times> raw) list"
  include_pat :: "string \<Rightarrow> bool"

definition new_scene :: "(string \<times> raw) list \<Rightarrow> (string \<Rightarrow> bool) \<Rightarrow> 's scene" where
  "new_scene ps inc =
     \<lparr>teardownHooks = [], beforeIterHooks = [], afterIterHooks = [], cases = [],
      params = ps, include_pat = inc\<rparr>"

definition new_case :: "string \<Rightarrow> 's workload \<Rightarrow> bool \<Rightarrow> 's bench_case" where
  "new_case n f a = \<lparr>name = n, fn = f, isAsync = a, case_id = None\<rparr>"

definition beforeIteration :: "'s hook \<Rightarrow> 's scene \<Rightarrow> 's scene" where
  "beforeIteration h sc = sc\<lparr>beforeIterHooks := beforeIterHooks sc @ [h]\<rparr>"

definition afterIteration :: "'s hook \<Rightarrow> 's scene \<Rightarrow> 's scene" where
  "afterIteration h sc = sc\<lparr>afterIterHooks := afterIterHooks sc @ [h]\<rparr>"

definition teardown :: "'s hook \<Rightarrow> 's scene \<Rightarrow> 's scene" where
  "teardown h sc = sc\<lparr>teardownHooks := teardownHooks sc @ [h]\<rparr>"

text \<open>The class \<^verbatim>\<open>\s\<close> of a JavaScript regular expression, on the code units below 256.\<close>

definition is_space :: "char \<Rightarrow> bool" where
  "is_space c = (of_char c \<in> {9, 10, 11, 12, 13, 32, 160 :: nat})"

text \<open>\<^verbatim>\<open>/^\s*$/.test(name)\<close>\<close>

definition isBlank :: "string \<Rightarrow> bool" where
  "isBlank n = list_all is_space n"

definition add :: "string \<Rightarrow> 's workload \<Rightarrow> bool \<Rightarrow> 's scene \<Rightarrow> error + 's scene" where
  "add n f a sc =
     (if isBlank n then Inl (Error ''Case name cannot be blank.'')
      else if list_ex (\<lambda>c. name c = n) (cases sc)
        then Inl (Error (''Case \"'' @ n @ ''\" already exists.''))
      else if include_pat sc n then Inr (sc\<lparr>cases := cases sc @ [new_case n f a]\<rparr>)
      else Inr sc)"

definition bench :: "string \<Rightarrow> 's workload \<Rightarrow> 's scene \<Rightarrow> error + 's scene" where
  "bench n f sc = add n f False sc"

definition benchAsync :: "string \<Rightarrow> 's workload \<Rightarrow> 's scene \<Rightarrow> error + 's scene" where
  "benchAsync n f sc = add n f True sc"


section \<open>The time worker (\<^verbatim>\<open>createInvoker\<close>, \<^verbatim>\<open>TimeWorker\<close>)\<close>

text \<open>
  \<^verbatim>\<open>BenchCase\<close> as the time worker and \<^verbatim>\<open>packages/core/src/client/suite.ts\<close> have it:
  the hook lists are fields of the case, and there is no case id.
\<close>

record 's client_case =
  client_name :: string
  client_fn :: "'s workload"
  client_isAsync :: bool
  setupHooks :: "'s hook list"
  cleanHooks :: "'s hook list"

text \<open>
  \<^verbatim>\<open>Scene\<close> of \<^verbatim>\<open>packages/core/src/client/suite.ts\<close>.  Its cases share the hook arrays of
  the scene, so a case is kept as its name, its workload and its \<^verbatim>\<open>isAsync\<close>, and
  \<open>case_of\<close> gives the case with the hooks the scene has.
\<close>

record 's client_scene =
  setupIteration :: "'s hook list"
  cleanIteration :: "'s hook list"
  cleanEach :: "'s hook list"
  client_cases :: "(string \<times> 's workload \<times> bool) list"
  client_params :: "(string \<times> raw) list"
  client_include :: "string \<Rightarrow> bool"

definition case_of :: "'s client_scene \<Rightarrow> string \<times> 's workload \<times> bool \<Rightarrow> 's client_case" where
  "case_of sc c =
     \<lparr>client_name = fst c, client_fn = fst (snd c), client_isAsync = snd (snd c),
      setupHooks = setupIteration sc, cleanHooks = cleanIteration sc\<rparr>"


text \<open>\<^verbatim>\<open>while (count-- > 0) body\<close>; a throw of the body leaves the loop.\<close>

fun repeat :: "nat \<Rightarrow> ('s, 'a) eff \<Rightarrow> ('s, unit) eff" where
  "repeat 0 body s = (Inr (), s)"
| "repeat (Suc n) body s =
     (case body s of (Inl e, s') \<Rightarrow> (Inl e, s') | (Inr a, s') \<Rightarrow> repeat n body s')"

text \<open>
  \<open>now\<close> reads \<^verbatim>\<open>performance.now()\<close> off the state.  The synchronous loop of \<^verbatim>\<open>noSetup\<close>
  calls the workload and drops what it returns; the asynchronous one awaits it.
\<close>

definition noSetup :: "('s \<Rightarrow> real) \<Rightarrow> 's client_case \<Rightarrow> nat \<Rightarrow> ('s, real) eff" where
  "noSetup now c count s =
     (let start = now s in
      case (if client_isAsync c then repeat count (bind (client_fn c) await)
            else repeat count (client_fn c)) s of
        (Inl e, s') \<Rightarrow> (Inl e, s')
      | (Inr u, s') \<Rightarrow> (Inr (now s' - start), s'))"

fun syncWithSetup_loop ::
  "('s \<Rightarrow> real) \<Rightarrow> 's client_case \<Rightarrow> nat \<Rightarrow> real \<Rightarrow> ('s, real) eff" where
  "syncWithSetup_loop now c 0 timeUsage s = (Inr timeUsage, s)"
| "syncWithSetup_loop now c (Suc n) timeUsage s =
     (case runFns (setupHooks c) s of
        (Inl e, s1) \<Rightarrow> (Inl e, s1)
      | (Inr u, s1) \<Rightarrow>
          (case client_fn c s1 of
             (Inl e, s2) \<Rightarrow> (Inl e, s2)
           | (Inr r, s2) \<Rightarrow>
               (case runFns (cleanHooks c) s2 of
                  (Inl e, s3) \<Rightarrow> (Inl e, s3)
                | (Inr u, s3) \<Rightarrow>
                    syncWithSetup_loop now c n (timeUsage - now s1 + now s2) s3)))"

definition syncWithSetup :: "('s \<Rightarrow> real) \<Rightarrow> 's client_case \<Rightarrow> nat \<Rightarrow> ('s, real) eff" where
  "syncWithSetup now c count = syncWithSetup_loop now c count 0"

fun asyncWithSetup_loop ::
  "('s \<Rightarrow> real) \<Rightarrow> 's client_case \<Rightarrow> nat \<Rightarrow> real \<Rightarrow> ('s, real) eff" where
  "asyncWithSetup_loop now c 0 timeUsage s = (Inr timeUsage, s)"
| "asyncWithSetup_loop now c (Suc n) timeUsage s =
     (case runFns (setupHooks c) s of
        (Inl e, s1) \<Rightarrow> (Inl e, s1)
      | (Inr u, s1) \<Rightarrow>
          (case bind (client_fn c) await s1 of
             (Inl e, s2) \<Rightarrow> (Inl e, s2)
           | (Inr r, s2) \<Rightarrow>
               (case runFns (cleanHooks c) s2 of
                  (Inl e, s3) \<Rightarrow> (Inl e, s3)
                | (Inr u, s3) \<Rightarrow>
                    asyncWithSetup_loop now c n (timeUsage - now s1 + now s2) s3)))"

definition asyncWithSetup :: "('s \<Rightarrow> real) \<Rightarrow> 's client_case \<Rightarrow> nat \<Rightarrow> ('s, real) eff" where
  "asyncWithSetup now c count = asyncWithSetup_loop now c count 0"

text \<open>\<^verbatim>\<open>const setup = setupHooks.length && cleanHooks.length\<close>: a number that is truthy
  only when both lists are non-empty.\<close>

definition createInvoker :: "('s \<Rightarrow> real) \<Rightarrow> 's client_case \<Rightarrow> nat \<Rightarrow> ('s, real) eff" where
  "createInvoker now c =
     (if length (setupHooks c) \<noteq> 0 \<and> length (cleanHooks c) \<noteq> 0
      then (if client_isAsync c then asyncWithSetup now c else syncWithSetup now c)
      else noSetup now c)"

text \<open>
  A JavaScript number where the worker computes one that need not be finite.  A division
  by zero does not throw: it gives \<^verbatim>\<open>NaN\<close> for \<^verbatim>\<open>0 / 0\<close> and an infinity otherwise.
  (Rounding and the sign of zero are not modelled: the finite numbers are the reals.)
\<close>

datatype jsnum = Num real | NaN | PosInfinity | NegInfinity

definition js_div :: "real \<Rightarrow> real \<Rightarrow> jsnum" where
  "js_div a b =
     (if b \<noteq> 0 then Num (a / b)
      else if a = 0 then NaN
      else if 0 < a then PosInfinity
      else NegInfinity)"

fun js_ceil :: "jsnum \<Rightarrow> jsnum" where
  "js_ceil (Num r) = Num (of_int \<lceil>r\<rceil>)"
| "js_ceil x = x"

text \<open>
  The logger is a sink: the worker's state is the state of the workloads together with the
  messages logged so far.  A message keeps the numbers that \<^verbatim>\<open>timeDetail\<close> (of the absent
  \<^verbatim>\<open>utils.js\<close>) would format.
\<close>

datatype log_msg =
    Benchmark string
  | Pilot real nat
  | Wramup real jsnum
  | Actual real jsnum
  | Blank

type_synonym 'w logged = "'w \<times> log_msg list"

definition logger :: "log_msg \<Rightarrow> ('w logged, unit) eff" where
  "logger m s = (Inr (), (fst s, snd s @ [m]))"

definition lift :: "('w, 'a) eff \<Rightarrow> ('w logged, 'a) eff" where
  "lift m s = (case m (fst s) of (r, w') \<Rightarrow> (r, (w', snd s)))"

text \<open>
  The loop of \<^verbatim>\<open>getIterations\<close>.  It need not end, so it is a partial function: \<open>None\<close> is
  a loop that runs forever.  It returns the final \<^verbatim>\<open>count\<close> and \<^verbatim>\<open>time\<close>.
\<close>

partial_function (option) pilot ::
  "(nat \<Rightarrow> ('w, real) eff) \<Rightarrow> real \<Rightarrow> nat \<Rightarrow> real \<Rightarrow> 'w logged
     \<Rightarrow> ((error + nat \<times> real) \<times> 'w logged) option" where
  "pilot f targetMS count time s =
     (if time < targetMS then
        (case lift (f count) s of
           (Inl e, s1) \<Rightarrow> Some (Inl e, s1)
         | (Inr t, s1) \<Rightarrow>
             (case logger (Pilot t count) s1 of
                (Inl e, s2) \<Rightarrow> Some (Inl e, s2)
              | (Inr u, s2) \<Rightarrow> pilot f targetMS (count * 2) t s2))
      else Some (Inr (count, time), s))"

text \<open>\<^verbatim>\<open>Math.ceil(count / 2 * targetMS / time)\<close>\<close>

definition estimate :: "nat \<Rightarrow> real \<Rightarrow> real \<Rightarrow> jsnum" where
  "estimate count targetMS time = js_ceil (js_div (real count / 2 * targetMS) time)"

definition getIterations ::
  "(nat \<Rightarrow> ('w, real) eff) \<Rightarrow> real \<Rightarrow> 'w logged \<Rightarrow> ((error + jsnum) \<times> 'w logged) option" where
  "getIterations f targetMS s =
     (case pilot f targetMS 1 0 s of
        None \<Rightarrow> None
      | Some (Inl e, s1) \<Rightarrow> Some (Inl e, s1)
      | Some (Inr (count, time), s1) \<Rightarrow>
          (case logger Blank s1 of
             (Inl e, s2) \<Rightarrow> Some (Inl e, s2)
           | (Inr u, s2) \<Rightarrow> Some (Inr (estimate count targetMS time), s2)))"



datatype metric = MNum real | MList "jsnum list" | MStr string

type_synonym metrics = "(string \<times> metric) list"

text \<open>The warm-up loop: \<^verbatim>\<open>for (let i = 0; i < warmup; i++)\<close>.\<close>

fun warmup_loop :: "(nat \<Rightarrow> ('w, real) eff) \<Rightarrow> nat \<Rightarrow> jsnum \<Rightarrow> nat \<Rightarrow> ('w logged, unit) eff" where
  "warmup_loop iterate rounds count 0 s = (Inr (), s)"
| "warmup_loop iterate rounds count (Suc n) s =
     (case lift (iterate rounds) s of
        (Inl e, s1) \<Rightarrow> (Inl e, s1)
      | (Inr time, s1) \<Rightarrow>
          (case logger (Wramup time count) s1 of
             (Inl e, s2) \<Rightarrow> (Inl e, s2)
           | (Inr u, s2) \<Rightarrow> warmup_loop iterate rounds count n s2))"







text \<open>
  A state for examples: a clock in milliseconds and the list of what ran.  \<open>spend ms x\<close>
  takes \<open>ms\<close> milliseconds and records \<open>x\<close>.
\<close>

type_synonym clocked = "real \<times> string list"

definition spend :: "real \<Rightarrow> string \<Rightarrow> clocked \<Rightarrow> clocked" where
  "spend ms x s = (fst s + ms, snd s @ [x])"

definition hook_of :: "real \<Rightarrow> string \<Rightarrow> clocked hook" where
  "hook_of ms x s = (Inr (), spend ms x s)"

definition sync_workload :: "real \<Rightarrow> string \<Rightarrow> clocked workload" where
  "sync_workload ms x s = (Inr (Plain x), spend ms x s)"

text \<open>An \<^verbatim>\<open>async\<close> function that suspends at once and does its work when resumed.\<close>

definition async_workload :: "real \<Rightarrow> string \<Rightarrow> clocked workload" where
  "async_workload ms x s = (Inr (Promise (\<lambda>s'. (Inr x, spend ms x s'))), s)"



text \<open>A measuring function for examples: a round takes one millisecond.\<close>

definition linear_measure :: "nat \<Rightarrow> (unit, real) eff" where
  "linear_measure count w = (Inr (real count), w)"

section \<open>\<^verbatim>\<open>BenchCase.invoke\<close>\<close>

text \<open>
  \<^verbatim>\<open>invoke\<close> of \<^verbatim>\<open>suite.ts\<close> (the copy at the end of \<^verbatim>\<open>core/__tests__/helper.ts\<close>):
  \<^verbatim>\<open>await runFns(this.beforeHooks); try { return await this.fn(); } finally { await runFns(this.afterHooks); }\<close>
\<close>

definition invoke :: "'s scene \<Rightarrow> 's bench_case \<Rightarrow> ('s, string) eff" where
  "invoke sc c =
     bind (runFns (beforeIterHooks sc))
       (\<lambda>u. try_finally (bind (fn c) await) (runFns (afterIterHooks sc)))"

text \<open>
  \<^verbatim>\<open>invoke\<close> of \<^verbatim>\<open>packages/core/src/client/suite.ts\<close>:
  \<^verbatim>\<open>await runHooks(this.setupHooks); try { return this.fn(); } finally { await runHooks(this.cleanHooks); }\<close>
  The \<^verbatim>\<open>try\<close> block returns what the workload returned without awaiting it, so the
  \<^verbatim>\<open>finally\<close> block runs at once; the promise of \<^verbatim>\<open>invoke\<close> then settles as the returned
  value does, which is the await after the \<^verbatim>\<open>finally\<close> here.
\<close>

definition client_invoke :: "'s client_case \<Rightarrow> ('s, string) eff" where
  "client_invoke c =
     bind (runFns (setupHooks c))
       (\<lambda>u. bind (try_finally (client_fn c) (runFns (cleanHooks c))) await)"

section \<open>The profiling context (\<^verbatim>\<open>core/src/profiling.ts\<close>)\<close>

datatype note_type = Info | Warn

record note_entry =
  note_type :: note_type
  note_text :: string
  caseId :: "nat option"

datatype metric_analysis = NoAnalysis | Compare | Statistics

record metric_meta =
  key :: string
  format :: "string option"
  analysis :: "metric_analysis option"
  lowerIsBetter :: "bool option"

type_synonym scene_result = "(string \<times> metrics) list"

text \<open>One combination of parameters: a raw value for each key.\<close>

type_synonym comb = "(string \<times> raw) list"

text \<open>
  The calls the driver makes, in the order it makes them; the number is the position of the
  profiler in \<^verbatim>\<open>profilers\<close>.  An \<open>OnCase\<close> call carries the name and the id of its case.
\<close>

datatype event =
    OnStart nat
  | Setup comb
  | OnScene nat comb
  | OnCase nat comb string nat
  | Teardown comb
  | OnFinish nat

text \<open>
  What hooks, workloads and profilers can reach: the notes and the metric descriptions of
  the context, the log, and the state of the user's program.
\<close>

record 'u shared =
  ctx_notes :: "note_entry list"
  meta :: "(string \<times> metric_meta) list"
  logged :: "(string \<times> string) list"
  world :: 'u

text \<open>
  \<^verbatim>\<open>ProfilingContext\<close>.  \<open>calls\<close> is not a field of the class: it lists the calls made so
  far, and the theorems about the order of calls are stated on it.
\<close>

record 'u profiling_context =
  scenes :: "scene_result list"
  hasRun :: bool
  caseIndex :: nat
  calls :: "event list"
  shared :: "'u shared"

definition new_context :: "'u \<Rightarrow> 'u profiling_context" where
  "new_context w =
     \<lparr>scenes = [], hasRun = False, caseIndex = 0, calls = [],
      shared = \<lparr>ctx_notes = [], meta = [], logged = [], world = w\<rparr>\<rparr>"

text \<open>The log handler is a sink.\<close>

definition logHandler :: "string \<Rightarrow> string \<Rightarrow> 'u shared hook" where
  "logHandler message level sh = (Inr (), sh\<lparr>logged := logged sh @ [(message, level)]\<rparr>)"

definition level_of :: "note_type \<Rightarrow> string" where
  "level_of t = (case t of Info \<Rightarrow> ''info'' | Warn \<Rightarrow> ''warn'')"

text \<open>\<^verbatim>\<open>ProfilingContext.note\<close>\<close>

definition ctx_note :: "note_type \<Rightarrow> string \<Rightarrow> 'u shared bench_case option \<Rightarrow> 'u shared hook" where
  "ctx_note t text c sh =
     logHandler text (level_of t)
       (sh\<lparr>ctx_notes := ctx_notes sh
            @ [\<lparr>note_type = t, note_text = text,
                caseId = (case c of None \<Rightarrow> None | Some c' \<Rightarrow> case_id c')\<rparr>]\<rparr>)"

definition defineMetric :: "metric_meta \<Rightarrow> 'u shared hook" where
  "defineMetric description sh =
     (Inr (), sh\<lparr>meta := AList.update (key description) description (meta sh)\<rparr>)"

text \<open>A profiler; a hook it does not have is \<open>None\<close>.  \<open>onCase\<close> writes to the metrics
  object it is given, so it returns the metrics.\<close>

record 'u profiler =
  onStart :: "'u shared hook option"
  onScene :: "('u shared scene \<Rightarrow> 'u shared hook) option"
  onCase :: "('u shared bench_case \<Rightarrow> metrics \<Rightarrow> ('u shared, metrics) eff) option"
  onFinish :: "'u shared hook option"

text \<open>
  The part of \<^verbatim>\<open>NormalizedSuite\<close> the context uses (the runner's record extends it).  \<^verbatim>\<open>setup\<close> is given the scene and
  changes it, so the scene is part of its state; it is there after a throw as well.
\<close>

record 'u suite =
  suite_params :: "(string \<times> raw list) list"
  suite_setup :: "('u shared scene \<times> 'u shared, unit) eff"

text \<open>
  Modelled from the spec: \<^verbatim>\<open>cartesianObject\<close> comes from a library.  The spec has the
  combinations in major-to-minor order of the keys: the first parameter advances slowest.
\<close>

fun cartesianObject :: "(string \<times> raw list) list \<Rightarrow> comb list" where
  "cartesianObject [] = [[]]"
| "cartesianObject ((k, vs) # rest) =
     concat (map (\<lambda>v. map (\<lambda>c. (k, v) # c) (cartesianObject rest)) vs)"

text \<open>Running something that sees only the shared part.\<close>

definition on_shared :: "('u shared, 'a) eff \<Rightarrow> ('u profiling_context, 'a) eff" where
  "on_shared m c = (case m (shared c) of (r, sh) \<Rightarrow> (r, c\<lparr>shared := sh\<rparr>))"

definition record_call :: "event \<Rightarrow> 'u profiling_context \<Rightarrow> 'u profiling_context" where
  "record_call ev c = c\<lparr>calls := calls c @ [ev]\<rparr>"

text \<open>
  \<^verbatim>\<open>runHooks(name, ...args)\<close>: \<^verbatim>\<open>for (const profiler of this.profilers) await profiler[name]?.(this, ...args)\<close>.
  \<open>sel\<close> picks the hook \<open>name\<close> of a profiler, applied to the arguments; \<open>i\<close> is the
  position of the first profiler of the list; \<open>a\<close> is the object the hooks write to.
\<close>

fun runHooks ::
  "(nat \<Rightarrow> event) \<Rightarrow> ('u profiler \<Rightarrow> ('a \<Rightarrow> ('u shared, 'a) eff) option) \<Rightarrow> 'u profiler list
     \<Rightarrow> nat \<Rightarrow> 'a \<Rightarrow> ('u profiling_context, 'a) eff" where
  "runHooks ev sel [] i a c = (Inr a, c)"
| "runHooks ev sel (p # ps) i a c =
     (case sel p of
        None \<Rightarrow> runHooks ev sel ps (Suc i) a c
      | Some h \<Rightarrow>
          (case on_shared (h a) (record_call (ev i) c) of
             (Inl e, c') \<Rightarrow> (Inl e, c')
           | (Inr a', c') \<Rightarrow> runHooks ev sel ps (Suc i) a' c'))"

definition sel_onStart :: "'u profiler \<Rightarrow> (unit \<Rightarrow> 'u shared hook) option" where
  "sel_onStart p = map_option (\<lambda>h u. h) (onStart p)"

definition sel_onScene :: "'u shared scene \<Rightarrow> 'u profiler \<Rightarrow> (unit \<Rightarrow> 'u shared hook) option" where
  "sel_onScene sc p = map_option (\<lambda>h u. h sc) (onScene p)"

definition sel_onCase ::
  "'u shared bench_case \<Rightarrow> 'u profiler \<Rightarrow> (metrics \<Rightarrow> ('u shared, metrics) eff) option" where
  "sel_onCase cs p = map_option (\<lambda>h. h cs) (onCase p)"

definition sel_onFinish :: "'u profiler \<Rightarrow> (unit \<Rightarrow> 'u shared hook) option" where
  "sel_onFinish p = map_option (\<lambda>h u. h) (onFinish p)"

text \<open>
  The loop over \<^verbatim>\<open>scene.cases\<close>.  \<open>idx\<close> is where \<^verbatim>\<open>results\<close> sits in \<^verbatim>\<open>this.scenes\<close>: the
  object was pushed before the loop and is written to after each case.
\<close>

fun run_cases ::
  "'u profiler list \<Rightarrow> comb \<Rightarrow> nat \<Rightarrow> 'u shared bench_case list \<Rightarrow> ('u profiling_context, unit) eff" where
  "run_cases ps cmb idx [] c = (Inr (), c)"
| "run_cases ps cmb idx (cs # rest) c =
     (let i = caseIndex c;
          c1 = c\<lparr>caseIndex := Suc i\<rparr>;
          cs' = cs\<lparr>case_id := Some i\<rparr>
      in case runHooks (\<lambda>p. OnCase p cmb (name cs) i) (sel_onCase cs') ps 0 [] c1 of
           (Inl e, c2) \<Rightarrow> (Inl e, c2)
         | (Inr ms, c2) \<Rightarrow>
             run_cases ps cmb idx rest
               (c2\<lparr>scenes := (scenes c2)[idx := AList.update (name cs) ms (scenes c2 ! idx)]\<rparr>))"

text \<open>The \<^verbatim>\<open>try\<close> block of \<^verbatim>\<open>runScene\<close>.\<close>

definition scene_body :: "'u profiler list \<Rightarrow> comb \<Rightarrow> 'u shared scene \<Rightarrow> ('u profiling_context, unit) eff" where
  "scene_body ps cmb sc c =
     (case runHooks (\<lambda>p. OnScene p cmb) (sel_onScene sc) ps 0 () c of
        (Inl e, c1) \<Rightarrow> (Inl e, c1)
      | (Inr u, c1) \<Rightarrow>
          run_cases ps cmb (length (scenes c1)) (cases sc) (c1\<lparr>scenes := scenes c1 @ [[]]\<rparr>))"

text \<open>The \<^verbatim>\<open>finally\<close> block of \<^verbatim>\<open>runScene\<close>.\<close>

definition scene_teardown :: "comb \<Rightarrow> 'u shared scene \<Rightarrow> ('u profiling_context, unit) eff" where
  "scene_teardown cmb sc c = on_shared (runFns (teardownHooks sc)) (record_call (Teardown cmb) c)"

definition runScene ::
  "('u, 'z) suite_scheme \<Rightarrow> 'u profiler list \<Rightarrow> (string \<Rightarrow> bool) \<Rightarrow> comb \<Rightarrow> ('u profiling_context, unit) eff" where
  "runScene suite ps pattern cmb c =
     (let c0 = record_call (Setup cmb) c in
      case suite_setup suite (new_scene cmb pattern, shared c0) of
        (Inl e, (sc, sh)) \<Rightarrow> (Inl e, c0\<lparr>shared := sh\<rparr>)
      | (Inr u, (sc, sh)) \<Rightarrow>
          try_finally (scene_body ps cmb sc) (scene_teardown cmb sc) (c0\<lparr>shared := sh\<rparr>))"

fun run_scenes ::
  "('u, 'z) suite_scheme \<Rightarrow> 'u profiler list \<Rightarrow> (string \<Rightarrow> bool) \<Rightarrow> comb list \<Rightarrow> ('u profiling_context, unit) eff" where
  "run_scenes suite ps pattern [] c = (Inr (), c)"
| "run_scenes suite ps pattern (cmb # rest) c =
     (case runScene suite ps pattern cmb c of
        (Inl e, c') \<Rightarrow> (Inl e, c')
      | (Inr u, c') \<Rightarrow> run_scenes suite ps pattern rest c')"

definition run :: "('u, 'z) suite_scheme \<Rightarrow> 'u profiler list \<Rightarrow> (string \<Rightarrow> bool) \<Rightarrow> ('u profiling_context, unit) eff" where
  "run suite ps pattern c =
     (if hasRun c then (Inl (Error ''A ProfilingContext can only be run once.''), c)
      else
        case runHooks OnStart sel_onStart ps 0 () (c\<lparr>hasRun := True\<rparr>) of
          (Inl e, c1) \<Rightarrow> (Inl e, c1)
        | (Inr u, c1) \<Rightarrow>
            (case run_scenes suite ps pattern (cartesianObject (suite_params suite)) c1 of
               (Inl e, c2) \<Rightarrow> (Inl e, c2)
             | (Inr u, c2) \<Rightarrow> runHooks OnFinish sel_onFinish ps 0 () c2))"

text \<open>
  The calls of a whole run, as the ordering contract lists them.  \<open>hook_indices sel ps i\<close>
  are the positions (counted from \<open>i\<close>) of the profilers of \<open>ps\<close> that have the hook \<open>sel\<close>.
\<close>

fun hook_indices :: "('p \<Rightarrow> 'h option) \<Rightarrow> 'p list \<Rightarrow> nat \<Rightarrow> nat list" where
  "hook_indices sel [] i = []"
| "hook_indices sel (p # ps) i =
     (case sel p of
        None \<Rightarrow> hook_indices sel ps (Suc i)
      | Some h \<Rightarrow> i # hook_indices sel ps (Suc i))"





text \<open>
  A suite and two profilers for examples.  The suite has one parameter with two values;
  its \<^verbatim>\<open>setup\<close> registers a teardown hook and the cases \<open>A\<close> and \<open>B\<close>.  The first profiler
  has every hook and writes a metric in \<open>onCase\<close>; the second has \<open>onCase\<close> only and adds a
  note.  The state of the user's program is the list of what ran.
\<close>

definition say :: "string \<Rightarrow> string list shared hook" where
  "say x sh = (Inr (), sh\<lparr>world := world sh @ [x]\<rparr>)"

definition example_setup :: "(string list shared scene \<times> string list shared, unit) eff" where
  "example_setup s =
     (case bench ''A'' (\<lambda>sh. (Inr (Plain ''a''), sh)) (teardown (say ''teardown'') (fst s)) of
        Inl e \<Rightarrow> (Inl e, s)
      | Inr sc1 \<Rightarrow>
          (case benchAsync ''B'' (\<lambda>sh. (Inr (Plain ''b''), sh)) sc1 of
             Inl e \<Rightarrow> (Inl e, (sc1, snd s))
           | Inr sc2 \<Rightarrow> (Inr (), (sc2, snd s))))"

definition example_suite :: "string list suite" where
  "example_suite = \<lparr>suite_params = [(''size'', [Str ''1'', Str ''2''])], suite_setup = example_setup\<rparr>"

definition example_profilers :: "string list profiler list" where
  "example_profilers =
     [\<lparr>onStart = Some (defineMetric \<lparr>key = ''time'', format = None, analysis = None,
                                      lowerIsBetter = None\<rparr>),
       onScene = Some (\<lambda>sc. say ''scene''),
       onCase = Some (\<lambda>cs ms sh. (Inr (AList.update ''time'' (MNum 1) ms), sh)),
       onFinish = Some (say ''finish'')\<rparr>,
      \<lparr>onStart = None, onScene = None,
       onCase = Some (\<lambda>cs ms sh. (case ctx_note Info (name cs) (Some cs) sh of
                                     (Inl e, sh') \<Rightarrow> (Inl e, sh')
                                   | (Inr u, sh') \<Rightarrow> (Inr ms, sh'))),
       onFinish = None\<rparr>]"

text \<open>A \<^verbatim>\<open>setup\<close> that registers a teardown hook and then throws, and a profiler whose
  \<open>onCase\<close> adds a note and throws on the case \<open>B\<close>.\<close>

definition failing_setup :: "(string list shared scene \<times> string list shared, unit) eff" where
  "failing_setup s = (Inl (Error ''setup failed''), (teardown (say ''teardown'') (fst s), snd s))"

definition failing_profiler :: "string list profiler" where
  "failing_profiler =
     \<lparr>onStart = None, onScene = None,
      onCase = Some (\<lambda>cs ms sh.
        (case ctx_note Warn (name cs) (Some cs) sh of
           (Inl e, sh') \<Rightarrow> (Inl e, sh')
         | (Inr u, sh') \<Rightarrow>
             if name cs = ''B'' then (Inl (Error ''onCase failed''), sh')
             else (Inr (AList.update ''seen'' (MStr (name cs)) ms), sh'))),
      onFinish = None\<rparr>"

text \<open>The context after the scene \<open>size = 1\<close> of the example suite has been run with the
  failing profiler.\<close>

definition example_failed_context :: "string list profiling_context" where
  "example_failed_context =
     \<lparr>scenes = [[(''A'', [(''seen'', MStr ''A'')])]], hasRun = False, caseIndex = 2,
      calls = [Setup [(''size'', Str ''1'')], OnCase 0 [(''size'', Str ''1'')] ''A'' 0,
               OnCase 0 [(''size'', Str ''1'')] ''B'' 1, Teardown [(''size'', Str ''1'')]],
      shared = \<lparr>ctx_notes = [\<lparr>note_type = Warn, note_text = ''A'', caseId = Some 0\<rparr>,
                             \<lparr>note_type = Warn, note_text = ''B'', caseId = Some 1\<rparr>],
                meta = [], logged = [(''A'', ''warn''), (''B'', ''warn'')],
                world = [''teardown'']\<rparr>\<rparr>"

definition fresh_context :: "string list profiling_context" where
  "fresh_context = new_context []"



section \<open>Suite normalisation and the runner entry (\<^verbatim>\<open>suite.ts\<close>, \<^verbatim>\<open>core/src/runner.ts\<close>)\<close>

text \<open>
  Modelled from the spec: the constant \<^verbatim>\<open>BUILTIN_VARS\<close> of the absent \<^verbatim>\<open>utils.js\<close>.  The
  spec reserves the variables \<open>Name\<close>, \<open>Builder\<close> and \<open>Executor\<close>.
\<close>

definition BUILTIN_VARS :: "string list" where
  "BUILTIN_VARS = [''Name'', ''Builder'', ''Executor'']"

text \<open>The values of a parameter: something iterable, or an object from display names
  to values.  \<open>symbol_keys\<close> says that the definition has a key that is a symbol.\<close>

datatype param_values = Iterable "raw list" | Object "(string \<times> raw) list"

record params_def =
  symbol_keys :: bool
  entries :: "(string \<times> param_values) list"

text \<open>\<^verbatim>\<open>getFromIter\<close> and \<^verbatim>\<open>getFromObject\<close>: pairs of what is displayed and the value.\<close>

definition name_value_pairs :: "param_values \<Rightarrow> (raw \<times> raw) list" where
  "name_value_pairs values =
     (case values of
        Iterable vs \<Rightarrow> map (\<lambda>v. (v, v)) vs
      | Object kvs \<Rightarrow> map (\<lambda>(k, v). (Str k, v)) kvs)"

text \<open>The inner loop of \<^verbatim>\<open>resolveParams\<close>.  The set of display names seen for the key holds
  what \<open>current\<close> holds.  \<open>tdn\<close> is \<^verbatim>\<open>toDisplayName\<close> of the absent \<^verbatim>\<open>utils.js\<close>.\<close>

fun collect_values ::
  "(raw \<Rightarrow> string) \<Rightarrow> string \<Rightarrow> (raw \<times> raw) list \<Rightarrow> raw list \<Rightarrow> string list
     \<Rightarrow> error + raw list \<times> string list" where
  "collect_values tdn k [] valueArr current = Inr (valueArr, current)"
| "collect_values tdn k ((n, v) # rest) valueArr current =
     (let display = tdn n in
      if display \<in> set current
      then Inl (Error (''Parameter display name conflict ('' @ k @ '': '' @ display @ '')''))
      else collect_values tdn k rest (valueArr @ [v]) (current @ [display]))"

fun resolve_entries ::
  "(raw \<Rightarrow> string) \<Rightarrow> (string \<times> param_values) list
     \<Rightarrow> error + (string \<times> raw list) list \<times> (string \<times> string list) list" where
  "resolve_entries tdn [] = Inr ([], [])"
| "resolve_entries tdn ((k, values) # rest) =
     (if k \<in> set BUILTIN_VARS
      then Inl (Error (CHR 0x27 # k @ CHR 0x27 # '' is a builtin variable''))
      else case collect_values tdn k (name_value_pairs values) [] [] of
        Inl e \<Rightarrow> Inl e
      | Inr (valueArr, current) \<Rightarrow>
          if length current = 0
          then Inl (Error (''Suite parameter \"'' @ k @ ''\" must have a value''))
          else (case resolve_entries tdn rest of
                  Inl e \<Rightarrow> Inl e
                | Inr (cpSrc, names) \<Rightarrow> Inr ((k, valueArr) # cpSrc, (k, current) # names)))"

definition resolveParams ::
  "(raw \<Rightarrow> string) \<Rightarrow> params_def
     \<Rightarrow> error + (string \<times> raw list) list \<times> (string \<times> string list) list" where
  "resolveParams tdn pd =
     (if symbol_keys pd then Inl (Error ''Only string keys are allowed in param'')
      else resolve_entries tdn (entries pd))"

text \<open>An options object (of the time profiler, of the validator): its keys and values.\<close>

type_synonym js_object = "(string \<times> raw) list"

datatype timing = TimingFlag bool | TimingOptions js_object

record baseline_options =
  baseline_type :: string
  baseline_value :: raw

text \<open>\<^verbatim>\<open>BenchmarkSuite\<close>, and \<^verbatim>\<open>UserSuite\<close>: a suite object or only its \<^verbatim>\<open>setup\<close> function.\<close>

record 'u benchmark_suite =
  user_setup :: "('u shared scene \<times> 'u shared, unit) eff"
  user_beforeAll :: "'u shared hook option"
  user_afterAll :: "'u shared hook option"
  user_profilers :: "'u profiler option list option"
  user_timing :: "timing option"
  user_validate :: "js_object option"
  user_params :: "params_def option"
  user_baseline :: "baseline_options option"

datatype 'u user_suite =
    SetupFunction "('u shared scene \<times> 'u shared, unit) eff"
  | SuiteObject "'u benchmark_suite"

record 'u normalized_suite = "'u suite" +
  paramNames :: "(string \<times> string list) list"
  beforeAll :: "'u shared hook option"
  afterAll :: "'u shared hook option"
  profilers :: "'u profiler option list option"
  timing :: "js_object option"
  validate :: "js_object option"
  baseline :: "baseline_options option"

definition normalizeSuite :: "(raw \<Rightarrow> string) \<Rightarrow> 'u user_suite \<Rightarrow> error + 'u normalized_suite" where
  "normalizeSuite tdn input =
     (case input of
        SetupFunction f \<Rightarrow>
          Inr \<lparr>suite_params = [], suite_setup = f, paramNames = [], beforeAll = None,
               afterAll = None, profilers = None, timing = Some [], validate = None,
               baseline = None\<rparr>
      | SuiteObject s \<Rightarrow>
          (case resolveParams tdn
                  (case user_params s of
                     None \<Rightarrow> \<lparr>symbol_keys = False, entries = []\<rparr>
                   | Some pd \<Rightarrow> pd) of
             Inl e \<Rightarrow> Inl e
           | Inr (ps, names) \<Rightarrow>
               Inr \<lparr>suite_params = ps, suite_setup = user_setup s, paramNames = names,
                    beforeAll = user_beforeAll s, afterAll = user_afterAll s,
                    profilers = user_profilers s,
                    timing = (case user_timing s of
                                None \<Rightarrow> Some []
                              | Some (TimingFlag True) \<Rightarrow> Some []
                              | Some (TimingFlag False) \<Rightarrow> None
                              | Some (TimingOptions t) \<Rightarrow> Some t),
                    validate = user_validate s, baseline = user_baseline s\<rparr>))"

text \<open>\<^verbatim>\<open>ResultBaseline\<close>; the value is absent where the JavaScript reads past the end of
  an array.\<close>

record result_baseline =
  rb_type :: string
  rb_value :: "string option"

definition nth_opt :: "'a list \<Rightarrow> nat \<Rightarrow> 'a option" where
  "nth_opt xs i = (if i < length xs then Some (xs ! i) else None)"

text \<open>\<^verbatim>\<open>Array.indexOf\<close> and \<^verbatim>\<open>Array.findIndex\<close>: the first position, if there is one.\<close>

fun find_index :: "('a \<Rightarrow> bool) \<Rightarrow> 'a list \<Rightarrow> nat option" where
  "find_index P [] = None"
| "find_index P (x # xs) = (if P x then Some 0 else map_option Suc (find_index P xs))"

definition convertBaseline :: "'u normalized_suite \<Rightarrow> error + result_baseline option" where
  "convertBaseline suite =
     (case baseline suite of
        None \<Rightarrow> Inr None
      | Some b \<Rightarrow>
          if baseline_type b \<in> set BUILTIN_VARS then
            (case baseline_value b of
               Str v \<Rightarrow> Inr (Some \<lparr>rb_type = baseline_type b, rb_value = Some v\<rparr>)
             | Other v \<Rightarrow>
                 Inl (Error (''Value of baseline ('' @ baseline_type b @ '') must be a string'')))
          else
            (case find_index (\<lambda>e. fst e = baseline_type b) (suite_params suite) of
               None \<Rightarrow> Inl (Error (''Baseline ('' @ baseline_type b @ '') does not in params''))
             | Some i \<Rightarrow>
                 (case find_index (\<lambda>v. v = baseline_value b) (snd (suite_params suite ! i)) of
                    Some k \<Rightarrow>
                      Inr (Some \<lparr>rb_type = baseline_type b,
                                 rb_value = (case nth_opt (paramNames suite) i of
                                               None \<Rightarrow> None
                                             | Some e \<Rightarrow> nth_opt (snd e) k)\<rparr>)
                  | None \<Rightarrow>
                      Inl (Error (''Baseline value ('' @ (case baseline_value b of Str v \<Rightarrow> v | Other v \<Rightarrow> v)
                                   @ '') does not in params['' @ baseline_type b @ ''}'')))))"

text \<open>
  What the runner takes from files that are not among the sources: \<^verbatim>\<open>toDisplayName\<close>
  (\<^verbatim>\<open>utils.js\<close>), \<^verbatim>\<open>JSON.stringify\<close> on an object of strings, the classes
  \<^verbatim>\<open>ExecutionValidator\<close> and \<^verbatim>\<open>TimeProfiler\<close>, and the property that the context has under the
  symbol \<^verbatim>\<open>kWorkingParams\<close>, which \<^verbatim>\<open>profiling.ts\<close> never writes.  The hooks of
  \<^verbatim>\<open>DefaultEventLogger\<close>, which only count scenes and cases and log, are taken as given too.
\<close>

record 'u runtime =
  toDisplayName :: "raw \<Rightarrow> string"
  stringify :: "(string \<times> string) list \<Rightarrow> string"
  workingParams :: "'u profiling_context \<Rightarrow> comb option"
  defaultEventLogger :: "'u profiler"
  executionValidator :: "js_object \<Rightarrow> 'u profiler"
  timeProfiler :: "js_object \<Rightarrow> 'u profiler"

definition resolveProfilers :: "'u runtime \<Rightarrow> 'u normalized_suite \<Rightarrow> 'u profiler list" where
  "resolveProfilers rt suite =
     List.map_filter (\<lambda>p. p)
       ([Some (defaultEventLogger rt)]
        @ (case validate suite of None \<Rightarrow> [] | Some v \<Rightarrow> [Some (executionValidator rt v)])
        @ (case timing suite of None \<Rightarrow> [] | Some t \<Rightarrow> [Some (timeProfiler rt t)])
        @ (case profilers suite of None \<Rightarrow> [] | Some ps \<Rightarrow> ps))"

text \<open>\<^verbatim>\<open>RunSuiteError.fromScene\<close>\<close>

definition fromScene :: "'u runtime \<Rightarrow> comb \<Rightarrow> error \<Rightarrow> error" where
  "fromScene rt ps cause =
     (let p = map (\<lambda>(k, v). (k, toDisplayName rt v)) ps;
          s = stringify rt p
      in RunSuiteError (''Error occurred in scene '' @ s) cause (Some p))"

text \<open>The \<^verbatim>\<open>catch\<close> block of \<^verbatim>\<open>runSuite\<close>; the context is \<open>None\<close> while the variable is
  still \<^verbatim>\<open>undefined\<close>.\<close>

definition wrap_error :: "'u runtime \<Rightarrow> 'u profiling_context option \<Rightarrow> error \<Rightarrow> error" where
  "wrap_error rt ctx e =
     (case (case ctx of None \<Rightarrow> None | Some c \<Rightarrow> workingParams rt c) of
        Some wp \<Rightarrow> fromScene rt wp e
      | None \<Rightarrow> RunSuiteError ''Error occurred when running suite.'' e None)"

record run_suite_result =
  res_scenes :: "scene_result list"
  res_notes :: "note_entry list"
  res_meta :: "(string \<times> metric_meta) list"
  res_paramDef :: "(string \<times> string list) list"
  res_baseline :: "result_baseline option"

text \<open>
  \<^verbatim>\<open>runSuite\<close>, started in the state \<open>w\<close> of the user's program.  \<^verbatim>\<open>normalizeSuite\<close> is called
  before the \<^verbatim>\<open>try\<close> block.  \<open>pattern\<close> is \<^verbatim>\<open>options.pattern\<close>; without one every name matches.
\<close>

definition runSuite ::
  "'u runtime \<Rightarrow> 'u user_suite \<Rightarrow> (string \<Rightarrow> bool) option \<Rightarrow> 'u \<Rightarrow> (error + run_suite_result) \<times> 'u" where
  "runSuite rt userSuite pattern w =
     (case normalizeSuite (toDisplayName rt) userSuite of
        Inl e \<Rightarrow> (Inl e, w)
      | Inr suite \<Rightarrow>
          (case convertBaseline suite of
             Inl e \<Rightarrow> (Inl (wrap_error rt None e), w)
           | Inr bl \<Rightarrow>
               (let ps = resolveProfilers rt suite;
                    c = new_context w
                in case (case beforeAll suite of None \<Rightarrow> (Inr (), c) | Some h \<Rightarrow> on_shared h c) of
                     (Inl e, c1) \<Rightarrow> (Inl (wrap_error rt (Some c1) e), world (shared c1))
                   | (Inr u, c1) \<Rightarrow>
                       (case try_finally
                               (run suite ps (case pattern of None \<Rightarrow> (\<lambda>n. True) | Some re \<Rightarrow> re))
                               (case afterAll suite of None \<Rightarrow> ret () | Some h \<Rightarrow> on_shared h) c1 of
                          (Inl e, c2) \<Rightarrow> (Inl (wrap_error rt (Some c2) e), world (shared c2))
                        | (Inr u, c2) \<Rightarrow>
                            (Inr \<lparr>res_scenes = scenes c2, res_notes = ctx_notes (shared c2),
                                  res_meta = meta (shared c2), res_paramDef = paramNames suite,
                                  res_baseline = bl\<rparr>,
                             world (shared c2))))))"

section \<open>The result summary (\<^verbatim>\<open>Summary\<close>)\<close>

text \<open>
  A row of the table (\<^verbatim>\<open>FlattedResult\<close>): its string properties, and what it has under the
  symbols \<^verbatim>\<open>kMetrics\<close> and \<^verbatim>\<open>kIndex\<close>.  A property that is absent or \<^verbatim>\<open>undefined\<close> has no
  entry.
\<close>

record row =
  props :: "(string \<times> string) list"
  kMetrics :: metrics
  kIndex :: "nat option"

text \<open>
  The fields of \<^verbatim>\<open>Summary\<close> that sorting and finding use.  \<open>vars\<close> is a \<^verbatim>\<open>Map\<close> from a
  variable to the \<^verbatim>\<open>Set\<close> of its values, both in insertion order; \<open>iMap\<close> is an array with
  holes.  \<^verbatim>\<open>sort\<close> assigns \<open>keys\<close> and \<open>factors\<close> together and gives them the same length.
\<close>

record summary =
  vars :: "(string \<times> string list) list"
  table :: "row list"
  iMap :: "nat \<Rightarrow> row option"
  keys :: "string list"
  factors :: "nat list"

text \<open>\<^verbatim>\<open>indexOf(iter, k, v)\<close>; \<open>v\<close> is \<open>None\<close> for \<^verbatim>\<open>undefined\<close>, which no set holds.\<close>

definition indexOf :: "string list \<Rightarrow> string \<Rightarrow> string option \<Rightarrow> error + nat" where
  "indexOf iter k v =
     (case v of
        None \<Rightarrow> Inl (Error (k @ ''=undefined is not in variables''))
      | Some x \<Rightarrow>
          (case find_index (\<lambda>y. y = x) iter of
             None \<Rightarrow> Inl (Error (k @ ''='' @ x @ '' is not in variables''))
           | Some i \<Rightarrow> Inr i))"

text \<open>The loop of \<^verbatim>\<open>getIndex\<close> over the keys and their factors.\<close>

fun index_loop ::
  "(string \<times> string list) list \<Rightarrow> (string \<times> string) list \<Rightarrow> (string \<times> nat) list \<Rightarrow> nat
     \<Rightarrow> error + nat" where
  "index_loop vs properties [] index = Inr index"
| "index_loop vs properties ((k, f) # rest) index =
     (case map_of vs k of
        None \<Rightarrow> Inl (Error (k @ '' is not in variables''))
      | Some s \<Rightarrow>
          (case indexOf s k (map_of properties k) of
             Inl e \<Rightarrow> Inl e
           | Inr i \<Rightarrow> index_loop vs properties rest (index + f * i)))"

definition getIndex :: "summary \<Rightarrow> (string \<times> string) list \<Rightarrow> error + nat" where
  "getIndex s properties = index_loop (vars s) properties (zip (keys s) (factors s)) 0"





text \<open>\<^verbatim>\<open>Summary.find\<close>; \<open>None\<close> is a hole of \<open>iMap\<close>.\<close>

definition summary_find :: "(string \<times> string) list \<Rightarrow> summary \<Rightarrow> error + row option" where
  "summary_find variables s =
     (case getIndex s variables of Inl e \<Rightarrow> Inl e | Inr index \<Rightarrow> Inr (iMap s index))"

text \<open>
  \<^verbatim>\<open>Summary.findAll\<close>.  Iterating the values of an \<open>axis\<close> that is no variable throws.  For an
  axis that is not among the keys the factor is \<^verbatim>\<open>undefined\<close> and every position \<^verbatim>\<open>NaN\<close>,
  where \<open>iMap\<close> has nothing.
\<close>

definition findAll :: "(string \<times> string) list \<Rightarrow> string \<Rightarrow> summary \<Rightarrow> error + row option list" where
  "findAll variables axis s =
     (case map_of (vars s) axis of
        None \<Rightarrow> Inl (TypeError ''undefined is not iterable'')
      | Some values \<Rightarrow>
          (let copy = (case values of
                         [] \<Rightarrow> AList.delete axis variables
                       | v # vs \<Rightarrow> AList.update axis v variables)
           in case getIndex s copy of
                Inl e \<Rightarrow> Inl e
              | Inr index \<Rightarrow>
                  (case find_index (\<lambda>k. k = axis) (keys s) of
                     None \<Rightarrow> Inr (map (\<lambda>i. None) [0 ..< length values])
                   | Some j \<Rightarrow>
                       Inr (map (\<lambda>i. iMap s (index + factors s ! j * i)) [0 ..< length values]))))"



text \<open>
  A summary for examples: the cases \<open>A\<close> and \<open>B\<close> and the sizes 1 and 2, with no row for
  \<open>B\<close> at size 2; and the same summary after \<^verbatim>\<open>sort(["size", "Name"])\<close>.
\<close>

definition example_row :: "string \<Rightarrow> string \<Rightarrow> real \<Rightarrow> nat option \<Rightarrow> row" where
  "example_row n sz t i =
     \<lparr>props = [(''Name'', n), (''size'', sz)], kMetrics = [(''time'', MNum t)], kIndex = i\<rparr>"


definition example_sorted :: summary where
  "example_sorted =
     \<lparr>vars = [(''Name'', [''A'', ''B'']), (''size'', [''1'', ''2''])],
      table = [example_row ''A'' ''1'' 3 (Some 0), example_row ''B'' ''1'' 4 (Some 1),
               example_row ''A'' ''2'' 5 (Some 2)],
      iMap = ((\<lambda>i. None)(2 \<mapsto> example_row ''A'' ''2'' 5 (Some 2),
                            0 \<mapsto> example_row ''A'' ''1'' 3 (Some 0),
                            1 \<mapsto> example_row ''B'' ''1'' 4 (Some 1))),
      keys = [''size'', ''Name''], factors = [2, 1]\<rparr>"

section \<open>Name rules of \<^verbatim>\<open>Scene.bench\<close> and \<^verbatim>\<open>Scene.benchAsync\<close>\<close>



section \<open>Which measuring function \<^verbatim>\<open>createInvoker\<close> builds\<close>

lemma createInvoker_both_hook_kinds:
  "createInvoker fst
     \<lparr>client_name = ''A'', client_fn = sync_workload 1 ''work'', client_isAsync = False,
      setupHooks = [hook_of 5 ''before''], cleanHooks = [hook_of 7 ''after'']\<rparr> 2 (0, [])
   = (Inr 2, (26, [''before'', ''work'', ''after'', ''before'', ''work'', ''after'']))"
  by (simp add: createInvoker_def syncWithSetup_def numeral_2_eq_2 hook_of_def
      sync_workload_def spend_def)

text \<open>
  C2.  A case with a before-iteration hook and no after-iteration hook has an iteration
  hook, so its measuring function should run the hook before each of the \<open>count\<close>
  workload calls.  \<^verbatim>\<open>createInvoker\<close> tests \<^verbatim>\<open>setupHooks.length && cleanHooks.length\<close>, which
  is zero here: it returns \<^verbatim>\<open>noSetup\<close>, and the hook never runs.
\<close>

theorem createInvoker_one_hook_kind_runs_no_hook:
  "createInvoker fst
     \<lparr>client_name = ''A'', client_fn = sync_workload 1 ''work'', client_isAsync = False,
      setupHooks = [hook_of 5 ''before''], cleanHooks = []\<rparr> 2 (0, [])
   = (Inr 2, (2, [''work'', ''work'']))"
  by (simp add: createInvoker_def noSetup_def numeral_2_eq_2 sync_workload_def spend_def)

section \<open>What the sampling loop records\<close>


lemma warmup_loop_state:
  "warmup_loop iterate rounds count n s = (Inr u, s1) \<Longrightarrow> \<exists>w1 l1. s1 = (w1, l1)"
  by (cases s1) simp






section \<open>Calibration of the iteration count\<close>



lemma getIterations_example:
  "getIterations linear_measure 4 ((), [])
   = Some (Inr (Num 4), ((), [Pilot 1 1, Pilot 2 2, Pilot 4 4, Blank]))"
proof -
  have "pilot linear_measure 4 1 0 ((), [])
      = pilot linear_measure 4 2 1 ((), [Pilot 1 1])"
    by (subst pilot.simps) (simp add: lift_def logger_def linear_measure_def)
  also have "\<dots> = pilot linear_measure 4 4 2 ((), [Pilot 1 1, Pilot 2 2])"
    by (subst pilot.simps) (simp add: lift_def logger_def linear_measure_def)
  also have "\<dots> = pilot linear_measure 4 8 4 ((), [Pilot 1 1, Pilot 2 2, Pilot 4 4])"
    by (subst pilot.simps) (simp add: lift_def logger_def linear_measure_def)
  also have "\<dots> = Some (Inr (8, 4), ((), [Pilot 1 1, Pilot 2 2, Pilot 4 4]))"
    by (subst pilot.simps) simp
  finally show ?thesis
    by (simp add: getIterations_def logger_def estimate_def js_div_def)
qed


section \<open>Order of hooks and workload in \<^verbatim>\<open>BenchCase.invoke\<close>\<close>

lemma runFns_append:
  "runFns (hs @ hs') s =
     (case runFns hs s of (Inl e, s') \<Rightarrow> (Inl e, s') | (Inr u, s') \<Rightarrow> runFns hs' s')"
  by (induction hs arbitrary: s) (auto split: prod.splits sum.splits)

text \<open>
  The newer \<^verbatim>\<open>invoke\<close> does what C8 says: the before-hooks run in list order (which is
  registration order, as \<^verbatim>\<open>beforeIteration\<close> appends), then the workload runs and is
  awaited, then the after-hooks run, also when the workload threw or its promise was
  rejected; the outcome of the workload is the outcome of \<^verbatim>\<open>invoke\<close>.
\<close>

lemma invoke_order:
  assumes "runFns (beforeIterHooks sc) s = (Inr (), s1)"
    and "bind (fn c) await s1 = (r, s2)"
    and "runFns (afterIterHooks sc) s2 = (Inr (), s3)"
  shows "invoke sc c s = (r, s3)"
  using assms by (simp add: invoke_def bind_def try_finally_def)

lemma invoke_example:
  "invoke (afterIteration (hook_of 1 ''after'') (beforeIteration (hook_of 1 ''before'')
       (new_scene [] (\<lambda>n. True))))
     (new_case ''A'' (async_workload 1 ''work'') True) (0, [])
   = (Inr ''work'', (3, [''before'', ''work'', ''after'']))"
  by (simp add: invoke_def bind_def try_finally_def await_def new_scene_def new_case_def
      afterIteration_def beforeIteration_def hook_of_def async_workload_def spend_def)

text \<open>
  C8 fails for the older \<^verbatim>\<open>invoke\<close>.  An asynchronous workload returns a pending promise;
  the \<^verbatim>\<open>finally\<close> block runs the after-hook before that promise is awaited, so the
  after-hook runs before the workload has done its work.
\<close>

theorem client_invoke_after_hook_before_completion:
  "client_invoke
     \<lparr>client_name = ''A'', client_fn = async_workload 1 ''work'', client_isAsync = True,
      setupHooks = [hook_of 1 ''before''], cleanHooks = [hook_of 1 ''after'']\<rparr> (0, [])
   = (Inr ''work'', (3, [''before'', ''after'', ''work'']))"
  by (simp add: client_invoke_def bind_def try_finally_def await_def hook_of_def
      async_workload_def spend_def)

section \<open>The order of the calls of a run\<close>

lemma on_shared_frame:
  assumes "on_shared m c = (r, c')"
  shows "scenes c' = scenes c" "hasRun c' = hasRun c" "caseIndex c' = caseIndex c"
    "calls c' = calls c" "shared c' = snd (m (shared c))"
  using assms by (auto simp: on_shared_def split: prod.splits)

lemma hook_indices_cong:
  "(\<And>p. (sel p = None) = (sel' p = None)) \<Longrightarrow> hook_indices sel ps i = hook_indices sel' ps i"
proof (induction ps arbitrary: i)
  case Nil
  then show ?case by simp
next
  case (Cons p ps)
  from Cons.prems [of p] Cons.IH [OF Cons.prems] show ?case
    by (cases "sel p"; cases "sel' p") simp_all
qed

lemma hook_indices_sel [simp]:
  "hook_indices sel_onStart ps i = hook_indices onStart ps i"
  "hook_indices (sel_onScene sc) ps i = hook_indices onScene ps i"
  "hook_indices (sel_onCase cs) ps i = hook_indices onCase ps i"
  "hook_indices sel_onFinish ps i = hook_indices onFinish ps i"
  by (rule hook_indices_cong;
      simp add: sel_onStart_def sel_onScene_def sel_onCase_def sel_onFinish_def)+








lemmas example_run_simps =
  run_def example_suite_def example_profilers_def new_context_def
  sel_onStart_def sel_onScene_def sel_onCase_def sel_onFinish_def on_shared_def record_call_def
  runScene_def scene_body_def scene_teardown_def try_finally_def example_setup_def
  bench_def benchAsync_def add_def isBlank_def is_space_def new_scene_def new_case_def
  teardown_def say_def defineMetric_def ctx_note_def logHandler_def level_of_def Let_def


lemma example_run_calls:
  "calls (snd (run example_suite example_profilers (\<lambda>n. True) (new_context [])))
   = [OnStart 0,
      Setup [(''size'', Str ''1'')], OnScene 0 [(''size'', Str ''1'')],
      OnCase 0 [(''size'', Str ''1'')] ''A'' 0, OnCase 1 [(''size'', Str ''1'')] ''A'' 0,
      OnCase 0 [(''size'', Str ''1'')] ''B'' 1, OnCase 1 [(''size'', Str ''1'')] ''B'' 1,
      Teardown [(''size'', Str ''1'')],
      Setup [(''size'', Str ''2'')], OnScene 0 [(''size'', Str ''2'')],
      OnCase 0 [(''size'', Str ''2'')] ''A'' 2, OnCase 1 [(''size'', Str ''2'')] ''A'' 2,
      OnCase 0 [(''size'', Str ''2'')] ''B'' 3, OnCase 1 [(''size'', Str ''2'')] ''B'' 3,
      Teardown [(''size'', Str ''2'')],
      OnFinish 0]"
  by (simp add: example_run_simps)


section \<open>Teardown hooks and failures\<close>

text \<open>
  C5 as stated fails for \<^verbatim>\<open>setup\<close>, which \<^verbatim>\<open>runScene\<close> awaits before it enters the \<^verbatim>\<open>try\<close>
  block: a \<^verbatim>\<open>setup\<close> that has registered a teardown hook and then throws ends the run, and
  the hook is neither called nor does it leave its mark.
\<close>

theorem setup_failure_skips_teardown_counterexample:
  "fst (run \<lparr>suite_params = [], suite_setup = failing_setup\<rparr> example_profilers (\<lambda>n. True)
          (new_context []))
     = Inl (Error ''setup failed'')
   \<and> calls (snd (run \<lparr>suite_params = [], suite_setup = failing_setup\<rparr> example_profilers
          (\<lambda>n. True) (new_context [])))
     = [OnStart 0, Setup []]
   \<and> world (shared (snd (run \<lparr>suite_params = [], suite_setup = failing_setup\<rparr> example_profilers
          (\<lambda>n. True) (new_context []))))
     = []"
  by (simp add: run_def example_profilers_def new_context_def sel_onStart_def on_shared_def
      record_call_def runScene_def failing_setup_def new_scene_def teardown_def
      defineMetric_def Let_def)

text \<open>
  C5, as the code has it.  When \<^verbatim>\<open>runScene\<close> throws, either \<^verbatim>\<open>setup\<close> threw, and then no
  teardown hook has run; or \<^verbatim>\<open>setup\<close> returned a scene, and then the teardown hooks of that
  scene were run (in order, up to the first that throws) on the state in which the \<^verbatim>\<open>try\<close>
  block ended, after every profiler call, and the error is that of the \<^verbatim>\<open>try\<close> block
  unless a teardown hook threw one of its own.
\<close>

theorem runScene_failure_runs_teardown_unless_setup_threw:
  assumes "runScene suite ps pattern cmb c = (Inl e, c')"
  shows "(\<exists>sc sh. suite_setup suite (new_scene cmb pattern, shared c) = (Inl e, (sc, sh))
            \<and> calls c' = calls c @ [Setup cmb] \<and> shared c' = sh)
       \<or> (\<exists>sc sh r cf.
            suite_setup suite (new_scene cmb pattern, shared c) = (Inr (), (sc, sh))
          \<and> scene_body ps cmb sc (record_call (Setup cmb) c\<lparr>shared := sh\<rparr>) = (r, cf)
          \<and> calls c' = calls cf @ [Teardown cmb]
          \<and> shared c' = snd (runFns (teardownHooks sc) (shared cf))
          \<and> (fst (runFns (teardownHooks sc) (shared cf)) = Inl e
               \<or> fst (runFns (teardownHooks sc) (shared cf)) = Inr () \<and> r = Inl e))"
proof -
  define c0 where "c0 = record_call (Setup cmb) c"
  obtain r0 sc sh where su: "suite_setup suite (new_scene cmb pattern, shared c) = (r0, (sc, sh))"
    by (metis prod.exhaust)
  have sh0: "shared c0 = shared c" "calls c0 = calls c @ [Setup cmb]"
    by (simp_all add: c0_def record_call_def)
  show ?thesis
  proof (cases r0)
    case (Inl e0)
    with assms su sh0 have "e0 = e" "c' = c0\<lparr>shared := sh\<rparr>"
      by (simp_all add: runScene_def Let_def c0_def [symmetric])
    with su Inl sh0 show ?thesis by simp
  next
    case (Inr u)
    obtain r cf where body: "scene_body ps cmb sc (c0\<lparr>shared := sh\<rparr>) = (r, cf)"
      by (cases "scene_body ps cmb sc (c0\<lparr>shared := sh\<rparr>)")
    obtain rt ct where td: "scene_teardown cmb sc cf = (rt, ct)"
      by (cases "scene_teardown cmb sc cf")
    from td have "on_shared (runFns (teardownHooks sc)) (record_call (Teardown cmb) cf) = (rt, ct)"
      by (simp add: scene_teardown_def)
    from on_shared_frame(4,5) [OF this] this
    have ct: "calls ct = calls cf @ [Teardown cmb]"
      "shared ct = snd (runFns (teardownHooks sc) (shared cf))"
      "rt = fst (runFns (teardownHooks sc) (shared cf))"
      by (auto simp: record_call_def on_shared_def split: prod.splits)
    from assms su Inr sh0 body td
    have res: "(case rt of Inl e' \<Rightarrow> (Inl e', ct) | Inr u \<Rightarrow> (r, ct)) = (Inl e, c')"
      by (simp add: runScene_def Let_def c0_def [symmetric] try_finally_def)
    then have "c' = ct" and "rt = Inl e \<or> rt = Inr () \<and> r = Inl e"
      by (cases rt; simp)+
    with su Inr body ct show ?thesis
      unfolding c0_def by (intro disjI2 exI [of _ sc] exI [of _ sh] exI [of _ r] exI [of _ cf]) simp
  qed
qed

lemma failing_runScene_example:
  "runScene example_suite [failing_profiler] (\<lambda>n. True) [(''size'', Str ''1'')] fresh_context
   = (Inl (Error ''onCase failed''), example_failed_context)"
  by (simp add: example_suite_def failing_profiler_def new_context_def fresh_context_def example_failed_context_def
      sel_onScene_def sel_onCase_def on_shared_def record_call_def
      runScene_def scene_body_def scene_teardown_def try_finally_def example_setup_def
      bench_def benchAsync_def add_def isBlank_def is_space_def new_scene_def new_case_def
      teardown_def say_def ctx_note_def logHandler_def level_of_def Let_def)

theorem runScene_failure_runs_teardown_unless_setup_threw_witness:
  "runScene example_suite [failing_profiler] (\<lambda>n. True) [(''size'', Str ''1'')] fresh_context
     = (Inl (Error ''onCase failed''), example_failed_context)
   \<and> ((\<exists>sc sh. suite_setup example_suite
                (new_scene [(''size'', Str ''1'')] (\<lambda>n. True), shared fresh_context)
              = (Inl (Error ''onCase failed''), (sc, sh))
            \<and> calls example_failed_context
                = calls fresh_context @ [Setup [(''size'', Str ''1'')]]
            \<and> shared example_failed_context = sh)
       \<or> (\<exists>sc sh r cf.
            suite_setup example_suite
                (new_scene [(''size'', Str ''1'')] (\<lambda>n. True), shared fresh_context)
              = (Inr (), (sc, sh))
          \<and> scene_body [failing_profiler] [(''size'', Str ''1'')] sc
                (record_call (Setup [(''size'', Str ''1'')]) fresh_context\<lparr>shared := sh\<rparr>) = (r, cf)
          \<and> calls example_failed_context = calls cf @ [Teardown [(''size'', Str ''1'')]]
          \<and> shared example_failed_context = snd (runFns (teardownHooks sc) (shared cf))
          \<and> (fst (runFns (teardownHooks sc) (shared cf)) = Inl (Error ''onCase failed'')
               \<or> fst (runFns (teardownHooks sc) (shared cf)) = Inr ()
                 \<and> r = Inl (Error ''onCase failed''))))"
  by (rule conjI [OF failing_runScene_example
        runScene_failure_runs_teardown_unless_setup_threw [OF failing_runScene_example]])

section \<open>The state of the context after a failure in \<open>onCase\<close>\<close>







section \<open>Which failures \<^verbatim>\<open>runSuite\<close> wraps\<close>

lemma wrap_error_is_RunSuiteError:
  "\<exists>m ps. wrap_error rt ctx e = RunSuiteError m e ps"
  by (simp add: wrap_error_def fromScene_def Let_def split: option.splits)

text \<open>Once the suite is normalised, whatever \<^verbatim>\<open>runSuite\<close> throws is a \<^verbatim>\<open>RunSuiteError\<close>.\<close>

lemma runSuite_wraps_after_normalisation:
  assumes "normalizeSuite (toDisplayName rt) userSuite = Inr suite"
    and "runSuite rt userSuite pattern w = (Inl e, w')"
  shows "\<exists>m cause ps. e = RunSuiteError m cause ps"
proof -
  from assms have "\<exists>ctx e0. e = wrap_error rt ctx e0"
    by (auto simp: runSuite_def Let_def split: sum.splits prod.splits)
  with wrap_error_is_RunSuiteError show ?thesis
    by metis
qed

text \<open>
  C6 says that a configuration error from suite normalisation is raised as a
  \<^verbatim>\<open>RunSuiteError\<close>, and so does the comment above \<^verbatim>\<open>runSuite\<close>.  A parameter named \<open>Name\<close>
  is such an error, and so is a parameter without values; \<^verbatim>\<open>runSuite\<close> throws either as
  it is, since \<^verbatim>\<open>normalizeSuite\<close> is called before the \<^verbatim>\<open>try\<close> block.
\<close>

theorem runSuite_throws_normalisation_error_unwrapped:
  "runSuite rt
     (SuiteObject (s\<lparr>user_params :=
        Some \<lparr>symbol_keys = False, entries = [(''Name'', Iterable [Str ''x''])]\<rparr>\<rparr>))
     pattern w
   = (Inl (Error (CHR 0x27 # ''Name'' @ CHR 0x27 # '' is a builtin variable'')), w)
   \<and> runSuite rt
     (SuiteObject (s\<lparr>user_params :=
        Some \<lparr>symbol_keys = False, entries = [(''size'', Iterable [])]\<rparr>\<rparr>))
     pattern w
   = (Inl (Error ''Suite parameter \"size\" must have a value''), w)"
  by (simp add: runSuite_def normalizeSuite_def resolveParams_def BUILTIN_VARS_def
      name_value_pairs_def)

section \<open>Sorting the summary and finding rows\<close>





















lemma example_find:
  "summary_find [(''size'', ''2''), (''Name'', ''A'')] example_sorted
     = Inr (Some (example_row ''A'' ''2'' 5 (Some 2)))"
  "summary_find [(''size'', ''2''), (''Name'', ''B'')] example_sorted = Inr None"
  "findAll [(''Name'', ''B''), (''size'', ''2'')] ''size'' example_sorted
     = Inr [Some (example_row ''B'' ''1'' 4 (Some 1)), None]"
  "findAll [(''Name'', ''B''), (''size'', ''2'')] ''Name'' example_sorted
     = Inr [Some (example_row ''A'' ''2'' 5 (Some 2)), None]"
  by (simp_all add: summary_find_def findAll_def example_sorted_def getIndex_def indexOf_def
      example_row_def Let_def numeral_2_eq_2)


end
